theory Spec2Isabelle
  imports Complex_Main "HOL-Library.AList"
begin

section \<open>Python strings\<close>

text \<open>
  A Python \<open>str\<close> is modelled as a \<^typ>\<open>string\<close>, each character read as the code point
  of the same number (U+0000 to U+00FF).  The character classes below are the ones
  Python's \<open>str\<close> methods and the \<open>re\<close> module use, restricted to that range.
\<close>

definition isspace :: "char \<Rightarrow> bool" where
  \<comment> \<open>\<open>str.isspace\<close>, also the class \<open>\\s\<close> of \<open>re\<close>\<close>
  "isspace c = (let n = of_char c :: nat in
     (9 \<le> n \<and> n \<le> 13) \<or> (28 \<le> n \<and> n \<le> 32) \<or> n = 133 \<or> n = 160)"

definition isdecimal :: "char \<Rightarrow> bool" where
  \<comment> \<open>the class \<open>\\d\<close> of \<open>re\<close>\<close>
  "isdecimal c = (let n = of_char c :: nat in 48 \<le> n \<and> n \<le> 57)"

definition lower_char :: "char \<Rightarrow> char" where
  "lower_char c = (let n = of_char c :: nat in
     if (65 \<le> n \<and> n \<le> 90) \<or> (192 \<le> n \<and> n \<le> 214) \<or> (216 \<le> n \<and> n \<le> 222)
     then char_of (n + 32) else c)"

definition lower :: "string \<Rightarrow> string" where
  \<comment> \<open>\<open>str.lower\<close>\<close>
  "lower s = map lower_char s"

fun startswith :: "string \<Rightarrow> string \<Rightarrow> bool" where
  \<comment> \<open>\<open>s.startswith(p)\<close>\<close>
  "startswith s [] = True"
| "startswith [] (p # ps) = False"
| "startswith (c # s) (p # ps) = (c = p \<and> startswith s ps)"

fun str_in :: "string \<Rightarrow> string \<Rightarrow> bool" where
  \<comment> \<open>\<open>sub in s\<close>\<close>
  "str_in sub [] = (sub = [])"
| "str_in sub (c # s) = (startswith (c # s) sub \<or> str_in sub s)"

definition isword :: "char \<Rightarrow> bool" where
  \<comment> \<open>the class \<open>\\w\<close> of \<open>re\<close>\<close>
  "isword c = (let n = of_char c :: nat in
     (48 \<le> n \<and> n \<le> 57) \<or> (65 \<le> n \<and> n \<le> 90) \<or> n = 95 \<or> (97 \<le> n \<and> n \<le> 122)
     \<or> n = 170 \<or> n = 178 \<or> n = 179 \<or> n = 181 \<or> n = 185 \<or> n = 186
     \<or> (188 \<le> n \<and> n \<le> 190) \<or> (192 \<le> n \<and> n \<le> 214) \<or> (216 \<le> n \<and> n \<le> 246)
     \<or> 248 \<le> n)"

definition isdigit :: "char \<Rightarrow> bool" where
  \<comment> \<open>\<open>str.isdigit\<close> on one character\<close>
  "isdigit c = (let n = of_char c :: nat in
     (48 \<le> n \<and> n \<le> 57) \<or> n = 178 \<or> n = 179 \<or> n = 185)"

definition strip :: "string \<Rightarrow> string" where
  \<comment> \<open>\<open>s.strip()\<close>\<close>
  "strip s = rev (dropWhile isspace (rev (dropWhile isspace s)))"

fun split :: "char \<Rightarrow> string \<Rightarrow> string list" where
  \<comment> \<open>\<open>s.split(sep)\<close> for a one-character separator\<close>
  "split sep [] = [[]]"
| "split sep (c # s) =
     (if c = sep then [] # split sep s
      else (case split sep s of [] \<Rightarrow> [[c]] | p # ps \<Rightarrow> (c # p) # ps))"

fun replace_empty :: "string \<Rightarrow> string \<Rightarrow> string" where
  \<comment> \<open>\<open>s.replace(old, '')\<close>: every occurrence of \<open>old\<close>, left to right, is deleted\<close>
  "replace_empty old [] = []"
| "replace_empty old (c # s) =
     (if old \<noteq> [] \<and> startswith (c # s) old
      then replace_empty old (drop (length old) (c # s))
      else c # replace_empty old s)"

text \<open>
  Numbers: a Python \<open>int\<close> is an \<^typ>\<open>int\<close>, a \<open>float\<close> is the \<^typ>\<open>real\<close> it denotes
  (rounding, infinities and NaN are outside the model), and the conversions between
  \<open>str\<close> and \<open>int\<close> are taken without the interpreter's configurable limit on the number
  of digits.  On a match of \<open>\\d+\<close> or \<open>\\d+\\.?\\d*\<close> neither \<open>int\<close> nor \<open>float\<close> raises, so
  the \<open>except\<close> branches around them in the source are never taken.
\<close>

definition digit_val :: "char \<Rightarrow> nat" where
  "digit_val c = of_char c - 48"

definition nat_of_digits :: "string \<Rightarrow> nat" where
  "nat_of_digits ds = foldl (\<lambda>acc c. 10 * acc + digit_val c) 0 ds"

definition py_int :: "string \<Rightarrow> int" where
  \<comment> \<open>\<open>int(ds)\<close> for a string of decimal digits\<close>
  "py_int ds = int (nat_of_digits ds)"

definition py_float :: "string \<Rightarrow> real" where
  \<comment> \<open>\<open>float(s)\<close> for \<open>s\<close> of the shape digits, optional point, digits; the value is exact\<close>
  "py_float s =
     (let ip = takeWhile isdecimal s;
          fp = takeWhile isdecimal (drop 1 (dropWhile isdecimal s))
      in real (nat_of_digits ip) + real (nat_of_digits fp) / 10 ^ length fp)"

section \<open>The shared state (state.py)\<close>

record BookInfo =
  title :: string
  author :: string
  year :: "string option"
  rating :: real
  num_reviews :: int
  reason :: string
  score :: real

record StageInfo =
  description :: string
  duration :: string
  prerequisites :: "string list"
  objectives :: "string list"

text \<open>
  A \<open>dict\<close> is an association list in insertion order; \<^const>\<open>map_of\<close> reads it,
  \<^const>\<open>AList.update\<close> is item assignment (an existing key keeps its place, a new one
  goes last) and \<^const>\<open>AList.delete\<close> is \<open>del\<close>.
\<close>

type_synonym ('k, 'v) dict = "('k \<times> 'v) list"

definition keys :: "('k, 'v) dict \<Rightarrow> 'k list" where
  "keys d = map fst d"

definition get_or :: "('k, 'v) dict \<Rightarrow> 'k \<Rightarrow> 'v \<Rightarrow> 'v" where
  \<comment> \<open>\<open>d.get(k, default)\<close>\<close>
  "get_or d k dflt = (case map_of d k of None \<Rightarrow> dflt | Some v \<Rightarrow> v)"

record GraphState =
  topic :: string
  user_level :: string
  knowledge_gaps :: "string list"
  study_plan_structure :: "(string, StageInfo) dict"
  books_by_stage :: "(string, BookInfo list) dict"
  book_candidates :: "(string, BookInfo list) dict"
  book_search_iterations :: int
  validation_iterations :: int
  plan_refinement_iterations :: int
  quality_threshold :: real
  stage_being_processed :: "string option"
  all_stages_covered :: bool
  final_output :: string
  validation_feedback :: "string list"
  skip_auto_save :: "bool option"

definition MAX_BOOK_SEARCHES_PER_STAGE :: int where
  "MAX_BOOK_SEARCHES_PER_STAGE = 3"

definition MAX_VALIDATION_CYCLES :: int where
  "MAX_VALIDATION_CYCLES = 5"

definition MAX_PLAN_REFINEMENTS :: int where
  "MAX_PLAN_REFINEMENTS = 2"

definition MIN_BOOKS_PER_STAGE :: int where
  "MIN_BOOKS_PER_STAGE = 2"

definition QUALITY_THRESHOLD :: real where
  "QUALITY_THRESHOLD = 4.0"

definition truthy :: "string option \<Rightarrow> bool" where
  \<comment> \<open>truth value of an \<open>Optional[str]\<close>: \<open>None\<close> and the empty string are false\<close>
  "truthy x = (case x of None \<Rightarrow> False | Some s \<Rightarrow> s \<noteq> [])"

section \<open>Decision functions (decision\_nodes.py)\<close>

datatype book_decision =
  reintentar_busqueda | busqueda_especifica | aceptar_libros_actuales | libros_suficientes

datatype coverage_decision = siguiente_etapa | validacion_global

datatype validation_decision = forzar_salida | replantear | formatear

definition decision_busqueda_libros :: "GraphState \<Rightarrow> book_decision" where
  "decision_busqueda_libros state =
    (case stage_being_processed state of
       None \<Rightarrow> libros_suficientes
     | Some stage \<Rightarrow>
        if stage = [] then libros_suficientes
        else
          let iterations = book_search_iterations state;
              books = get_or (books_by_stage state) stage [];
              gaps = knowledge_gaps state
          in if iterations \<ge> MAX_BOOK_SEARCHES_PER_STAGE then aceptar_libros_actuales
             else if int (length books) < MIN_BOOKS_PER_STAGE then reintentar_busqueda
             else
               let stage_related_gaps =
                     filter (\<lambda>g. str_in (lower stage) (lower g) \<or> str_in ''need'' (lower g)) gaps
               in if stage_related_gaps \<noteq> [] \<and> iterations < MAX_BOOK_SEARCHES_PER_STAGE - 1
                  then busqueda_especifica
                  else libros_suficientes)"

definition uncovered :: "GraphState \<Rightarrow> string list" where
  \<comment> \<open>the loop that collects the stages with fewer than \<open>MIN_BOOKS_PER_STAGE\<close> books\<close>
  "uncovered state =
     filter (\<lambda>stage_name.
        int (length (get_or (books_by_stage state) stage_name [])) < MIN_BOOKS_PER_STAGE)
       (keys (study_plan_structure state))"

definition decision_cobertura_etapas :: "GraphState \<Rightarrow> coverage_decision \<times> GraphState" where
  \<comment> \<open>returns the decision and the state it leaves behind\<close>
  "decision_cobertura_etapas state =
     (let uncovered_stages = uncovered state
      in if uncovered_stages \<noteq> []
         then (siguiente_etapa, state\<lparr>all_stages_covered := False\<rparr>)
         else (validacion_global, state\<lparr>all_stages_covered := True\<rparr>))"

definition last3 :: "'a list \<Rightarrow> 'a list" where
  \<comment> \<open>the slice \<open>xs[-3:]\<close>\<close>
  "last3 xs = drop (length xs - 3) xs"

definition decision_validacion :: "GraphState \<Rightarrow> validation_decision" where
  "decision_validacion state =
    (let validation_iterations' = validation_iterations state;
         refinement_iterations = plan_refinement_iterations state;
         feedback = validation_feedback state
     in if validation_iterations' \<ge> MAX_VALIDATION_CYCLES then forzar_salida
        else
          let recent_feedback = (if feedback \<noteq> [] then last3 feedback else []);
              critical_issues =
                list_ex (\<lambda>fb. list_ex (\<lambda>word. str_in word (lower fb))
                                 [''critical'', ''major issue'', ''low quality''])
                        recent_feedback
          in if critical_issues \<and> refinement_iterations < MAX_PLAN_REFINEMENTS then replantear
             else
               let insufficient_stages = uncovered state
               in if insufficient_stages \<noteq> [] \<and> refinement_iterations < MAX_PLAN_REFINEMENTS
                  then replantear
                  else formatear)"

section \<open>Text extraction of books (utils/web\_search.py)\<close>

text \<open>
  The dictionaries that \<open>parse_books_from_text\<close> builds have at most the six keys below;
  a field is \<open>None\<close> while its key is absent.  The key \<open>year\<close> can hold Python's
  \<open>None\<close>, hence the nested option.
\<close>

record book_dict =
  d_title :: "string option"
  d_author :: "string option"
  d_year :: "string option option"
  d_rating :: "real option"
  d_num_reviews :: "int option"
  d_reason :: "string option"

definition empty_dict :: book_dict where
  "empty_dict = \<lparr> d_title = None, d_author = None, d_year = None, d_rating = None,
                   d_num_reviews = None, d_reason = None \<rparr>"

definition nonempty :: "book_dict \<Rightarrow> bool" where
  \<comment> \<open>truth value of a dictionary: it has some key\<close>
  "nonempty b = (d_title b \<noteq> None \<or> d_author b \<noteq> None \<or> d_year b \<noteq> None
                 \<or> d_rating b \<noteq> None \<or> d_num_reviews b \<noteq> None \<or> d_reason b \<noteq> None)"

definition year_at :: "string \<Rightarrow> bool" where
  \<comment> \<open>\<open>(19|20)\\d{2}\\b\<close> matches at the head of the string\<close>
  "year_at s =
     (case s of
        a # b # c # d # rest \<Rightarrow>
          ((a = CHR ''1'' \<and> b = CHR ''9'') \<or> (a = CHR ''2'' \<and> b = CHR ''0''))
          \<and> isdecimal c \<and> isdecimal d
          \<and> (case rest of [] \<Rightarrow> True | e # _ \<Rightarrow> \<not> isword e)
      | _ \<Rightarrow> False)"

fun year_search :: "bool \<Rightarrow> string \<Rightarrow> string option" where
  \<comment> \<open>\<open>re.search(r'\\b(19|20)\\d{2}\\b', s)\<close>; the flag says whether the character before
      the current position is a word character\<close>
  "year_search prev [] = None"
| "year_search prev (c # s) =
     (if \<not> prev \<and> year_at (c # s) then Some (take 4 (c # s))
      else year_search (isword c) s)"

definition rating_search :: "string \<Rightarrow> string option" where
  \<comment> \<open>group 1 of \<open>re.search(r'(\\d+\\.?\\d*)', s)\<close>\<close>
  "rating_search s =
     (let r = dropWhile (\<lambda>c. \<not> isdecimal c) s
      in if r = [] then None
         else (case dropWhile isdecimal r of
                 c # r2 \<Rightarrow>
                   if c = CHR ''.'' then Some (takeWhile isdecimal r @ ''.'' @ takeWhile isdecimal r2)
                   else Some (takeWhile isdecimal r)
               | [] \<Rightarrow> Some (takeWhile isdecimal r)))"

definition reviews_search :: "string \<Rightarrow> string option" where
  \<comment> \<open>group 1 of \<open>re.search(r'(\\d+)', s)\<close>\<close>
  "reviews_search s =
     (let r = dropWhile (\<lambda>c. \<not> isdecimal c) s
      in if r = [] then None else Some (takeWhile isdecimal r))"

definition parse_line :: "book_dict list \<times> book_dict \<Rightarrow> string \<Rightarrow> book_dict list \<times> book_dict" where
  \<comment> \<open>one iteration of the first loop; the argument is the line before \<open>strip\<close>\<close>
  "parse_line acc raw =
     (let books = fst acc; current_book = snd acc; line = strip raw
      in if startswith line ''Title:'' then
           (if nonempty current_book \<and> d_title current_book \<noteq> None
              then books @ [current_book] else books,
            empty_dict\<lparr>d_title := Some (strip (replace_empty ''Title:'' line))\<rparr>)
         else if startswith line ''Author:'' \<and> nonempty current_book then
           (books, current_book\<lparr>d_author := Some (strip (replace_empty ''Author:'' line))\<rparr>)
         else if startswith line ''Year:'' \<and> nonempty current_book then
           (let year_text = strip (replace_empty ''Year:'' line)
            in (books, current_book\<lparr>d_year := Some (year_search False year_text)\<rparr>))
         else if startswith line ''Rating:'' \<and> nonempty current_book then
           (let rating_text = strip (replace_empty ''Rating:'' line)
            in (books, current_book\<lparr>d_rating :=
                  Some (case rating_search rating_text of
                          Some g \<Rightarrow> py_float g | None \<Rightarrow> 0)\<rparr>))
         else if startswith line ''Reviews:'' \<and> nonempty current_book then
           (let reviews_text = strip (replace_empty ''Reviews:'' line)
            in (books, current_book\<lparr>d_num_reviews :=
                  Some (case reviews_search (replace_empty '','' reviews_text) of
                          Some g \<Rightarrow> py_int g | None \<Rightarrow> 0)\<rparr>))
         else if startswith line ''Why:'' \<and> nonempty current_book then
           (books, current_book\<lparr>d_reason := Some (strip (replace_empty ''Why:'' line))\<rparr>)
         else if line = ''---'' \<and> nonempty current_book then
           (if d_title current_book \<noteq> None then books @ [current_book] else books, empty_dict)
         else (books, current_book))"

definition structured_pass :: "string list \<Rightarrow> book_dict list" where
  \<comment> \<open>the first loop and the flush of the last book\<close>
  "structured_pass lines =
     (let acc = foldl parse_line ([], empty_dict) lines;
          books = fst acc; current_book = snd acc
      in if nonempty current_book \<and> d_title current_book \<noteq> None
         then books @ [current_book] else books)"

definition set_defaults :: "book_dict \<Rightarrow> book_dict" where
  \<comment> \<open>the \<open>setdefault\<close> calls of the last loop\<close>
  "set_defaults book =
     (if d_title book = None then book
      else book\<lparr> d_author := Some (case d_author book of None \<Rightarrow> ''Unknown'' | Some a \<Rightarrow> a),
                 d_year := Some (case d_year book of None \<Rightarrow> None | Some y \<Rightarrow> y),
                 d_rating := Some (case d_rating book of None \<Rightarrow> 0 | Some r \<Rightarrow> r),
                 d_num_reviews := Some (case d_num_reviews book of None \<Rightarrow> 0 | Some n \<Rightarrow> n),
                 d_reason := Some (case d_reason book of
                                     None \<Rightarrow> ''Highly recommended resource'' | Some w \<Rightarrow> w) \<rparr>)"

text \<open>
  The second, heuristic pass of \<open>parse_books_from_text\<close> runs only when the first pass
  found no book.  It is a parameter here: a function from the lines of the text to the
  dictionaries that pass would build.
\<close>

definition parse_books_from_text :: "(string list \<Rightarrow> book_dict list) \<Rightarrow> string \<Rightarrow> book_dict list" where
  "parse_books_from_text fallback text =
     (let lines = split CHR 0x0A text;
          books = structured_pass lines;
          books = (if length books = 0 then fallback lines else books)
      in map set_defaults books)"

datatype reply = Failed | Reply string

definition search_books_for_topic ::
  "(string list \<Rightarrow> book_dict list) \<Rightarrow> reply \<Rightarrow> book_dict list" where
  \<comment> \<open>the reply is what \<open>search_with_gemini\<close> got from the model: \<open>Failed\<close> when the call
      raised (the result then has the key \<open>error\<close>), else the text of the response\<close>
  "search_books_for_topic fallback result =
     (case result of Failed \<Rightarrow> [] | Reply text \<Rightarrow> parse_books_from_text fallback text)"

definition validate_book_quality :: "BookInfo \<Rightarrow> real \<Rightarrow> bool" where
  "validate_book_quality book quality_threshold' = (rating book \<ge> quality_threshold')"

section \<open>Formatting numbers\<close>

function show_nat :: "nat \<Rightarrow> string" where
  \<comment> \<open>\<open>str(n)\<close> for \<open>n \<ge> 0\<close>\<close>
  "show_nat n =
     (if n < 10 then [char_of (48 + n)]
      else show_nat (n div 10) @ [char_of (48 + n mod 10)])"
  by pat_completeness auto
termination
  by (relation "measure id") auto

declare show_nat.simps [simp del]

definition show_int :: "int \<Rightarrow> string" where
  \<comment> \<open>\<open>str(i)\<close>\<close>
  "show_int i = (if i < 0 then ''-'' @ show_nat (nat (- i)) else show_nat (nat i))"

definition quote :: string where
  "quote = [CHR 0x27]"

section \<open>Book search nodes (nodes/book\_search\_nodes.py)\<close>

definition book_info :: "book_dict \<Rightarrow> string \<Rightarrow> BookInfo" where
  \<comment> \<open>the \<open>BookInfo\<close> that the loop of \<open>investigador_libros\<close> builds from a parsed
      dictionary with the title \<open>t\<close>\<close>
  "book_info book t =
     (let rating' = (case d_rating book of None \<Rightarrow> 0 | Some r \<Rightarrow> r);
          num_reviews' = (case d_num_reviews book of None \<Rightarrow> 1 | Some n \<Rightarrow> n);
          score' = rating' * ln (real_of_int (max num_reviews' 1 + 1))
      in \<lparr> title = t,
           author = (case d_author book of None \<Rightarrow> ''Unknown'' | Some a \<Rightarrow> a),
           year = (case d_year book of None \<Rightarrow> None | Some y \<Rightarrow> y),
           rating = rating',
           num_reviews = num_reviews',
           reason = (case d_reason book of None \<Rightarrow> ''Recommended for this topic'' | Some w \<Rightarrow> w),
           score = score' \<rparr>)"

fun convert_books :: "book_dict list \<Rightarrow> BookInfo list" where
  \<comment> \<open>the loop over \<open>books_found\<close>: a dictionary without a title, or with an empty one,
      is skipped\<close>
  "convert_books [] = []"
| "convert_books (book # rest) =
     (case d_title book of
        None \<Rightarrow> convert_books rest
      | Some t \<Rightarrow> if t = [] then convert_books rest else book_info book t # convert_books rest)"

definition investigador_libros :: "book_dict list option \<Rightarrow> GraphState \<Rightarrow> GraphState" where
  \<comment> \<open>the first argument is the outcome of the call \<open>search_books_for_topic(topic, stage)\<close>:
      \<open>None\<close> when it raises\<close>
  "investigador_libros books_found state =
     (case stage_being_processed state of
        None \<Rightarrow> state
      | Some stage \<Rightarrow>
          if stage = [] then state
          else
            let iterations = book_search_iterations state
            in (case books_found of
                  Some found \<Rightarrow>
                    state\<lparr> book_candidates :=
                             AList.update stage (convert_books found) (book_candidates state),
                           book_search_iterations := iterations + 1 \<rparr>
                | None \<Rightarrow>
                    state\<lparr> book_candidates := AList.update stage [] (book_candidates state),
                           book_search_iterations := iterations + 1 \<rparr>))"

definition quality_filter :: "BookInfo list \<Rightarrow> real \<Rightarrow> BookInfo list" where
  \<comment> \<open>the filtering step of \<open>validador_calidad\<close>, before sorting\<close>
  "quality_filter candidates threshold =
     (let quality_books = filter (\<lambda>book. validate_book_quality book threshold) candidates
      in if int (length quality_books) < MIN_BOOKS_PER_STAGE \<and> threshold > 3.5
         then filter (\<lambda>book. validate_book_quality book (threshold - 0.3)) candidates
         else quality_books)"

definition sort_by_score :: "BookInfo list \<Rightarrow> BookInfo list" where
  \<comment> \<open>\<open>sort(key=score, reverse=True)\<close>: descending and stable\<close>
  "sort_by_score books = sort_key (\<lambda>b. - score b) books"

definition validador_calidad :: "GraphState \<Rightarrow> GraphState" where
  "validador_calidad state =
     (case stage_being_processed state of
        None \<Rightarrow> state
      | Some stage \<Rightarrow>
          if stage = [] then state
          else
            let threshold = quality_threshold state;
                candidates = get_or (book_candidates state) stage [];
                quality_books = sort_by_score (quality_filter candidates threshold);
                selected_books = take 5 quality_books
            in state\<lparr> books_by_stage := AList.update stage selected_books (books_by_stage state) \<rparr>)"

definition new_gaps :: "string \<Rightarrow> BookInfo list \<Rightarrow> string list" where
  \<comment> \<open>the gaps that \<open>detector_gaps\<close> collects for the stage and its books\<close>
  "new_gaps stage books =
     (if int (length books) < MIN_BOOKS_PER_STAGE
      then [''La etapa '' @ quote @ stage @ quote @ '' necesita m'' @ [CHR 0xE1] @ ''s libros (actualmente ''
            @ show_nat (length books) @ '')'']
      else [])
     @ (let low_rated = filter (\<lambda>b. rating b < 3.8) books
        in if low_rated \<noteq> []
           then [''Algunos libros en '' @ quote @ stage @ quote @ '' tienen calificaciones bajas'']
           else [])
     @ (let low_reviews = filter (\<lambda>b. num_reviews b < 50) books
        in if length low_reviews > length books div 2
           then [''Muchos libros en '' @ quote @ stage @ quote @ '' carecen de suficientes rese''
                 @ [CHR 0xF1] @ ''as'']
           else [])"

definition detector_gaps :: "GraphState \<Rightarrow> GraphState" where
  "detector_gaps state =
     (case stage_being_processed state of
        None \<Rightarrow> state
      | Some stage \<Rightarrow>
          if stage = [] then state
          else
            let books = get_or (books_by_stage state) stage [];
                gaps = knowledge_gaps state;
                new = new_gaps stage books
            in if new \<noteq> [] then state\<lparr> knowledge_gaps := gaps @ new \<rparr> else state)"

section \<open>Planning nodes (nodes/planning\_nodes.py)\<close>

definition create_default_stages :: "string \<Rightarrow> string \<Rightarrow> (string, StageInfo) dict" where
  \<comment> \<open>a dictionary display stores its items from left to right\<close>
  "create_default_stages topic' level =
     (if level = ''beginner'' then
        AList.update (''Advanced '' @ topic')
          \<lparr> description = ''Advanced topics and applications in '' @ topic',
            duration = ''8 weeks'',
            prerequisites = [''Intermediate knowledge''],
            objectives = [''Master advanced concepts'', ''Complete projects''] \<rparr>
       (AList.update (''Intermediate '' @ topic')
          \<lparr> description = ''Deeper dive into '' @ topic' @ '' topics'',
            duration = ''6 weeks'',
            prerequisites = [''Fundamentals''],
            objectives = [''Apply concepts'', ''Solve intermediate problems''] \<rparr>
       (AList.update (''Fundamentals of '' @ topic')
          \<lparr> description = ''Introduction to basic concepts of '' @ topic',
            duration = ''4 weeks'',
            prerequisites = [''None''],
            objectives = [''Understand core concepts'', ''Build foundation''] \<rparr>
          []))
      else
        AList.update (''Advanced '' @ topic')
          \<lparr> description = ''Advanced and specialized topics'',
            duration = ''8 weeks'',
            prerequisites = [''Core knowledge''],
            objectives = [''Expert-level mastery''] \<rparr>
       (AList.update (''Core '' @ topic')
          \<lparr> description = ''Essential concepts in '' @ topic',
            duration = ''6 weeks'',
            prerequisites = [''Basic knowledge''],
            objectives = [''Consolidate understanding''] \<rparr>
          []))"

definition stage_match :: "string \<Rightarrow> (char \<times> string) option" where
  \<comment> \<open>groups 2 and 3 of \<open>re.match(r'^(Stage|Phase)\\s+([1-7]):\\s*(.+)', line, re.IGNORECASE)\<close>\<close>
  "stage_match line =
     (if lower (take 5 line) = ''stage'' \<or> lower (take 5 line) = ''phase'' then
        (if takeWhile isspace (drop 5 line) = [] then None
         else
           (case dropWhile isspace (drop 5 line) of
              d # c # r3 \<Rightarrow>
                if d \<in> set ''1234567'' \<and> c = CHR '':'' then
                  (if dropWhile isspace r3 \<noteq> []
                   then Some (d, takeWhile (\<lambda>x. x \<noteq> CHR 0x0A) (dropWhile isspace r3))
                   else (case filter (\<lambda>x. x \<noteq> CHR 0x0A) r3 of
                           [] \<Rightarrow> None
                         | w # ws \<Rightarrow> Some (d, [last (w # ws)])))
                else None
            | _ \<Rightarrow> None))
      else None)"

definition after_colon :: "string \<Rightarrow> string option" where
  \<comment> \<open>the second part of \<open>line.split(':', 1)\<close>, when there is one\<close>
  "after_colon line =
     (case dropWhile (\<lambda>c. c \<noteq> CHR '':'') line of [] \<Rightarrow> None | _ # rest \<Rightarrow> Some rest)"

type_synonym stage_acc =
  "(string, StageInfo) dict \<times> string option \<times> StageInfo option \<times> string list"

definition save_stage ::
  "string option \<Rightarrow> StageInfo option \<Rightarrow> string list \<Rightarrow> (string, StageInfo) dict
     \<Rightarrow> (string, StageInfo) dict" where
  \<comment> \<open>\<open>if current_stage_name and current_stage: ...\<close>; the empty dictionary that
      \<open>current_stage\<close> starts as is \<open>None\<close>\<close>
  "save_stage current_stage_name current_stage objectives' stages =
     (case current_stage_name of
        None \<Rightarrow> stages
      | Some name \<Rightarrow>
          if name = [] then stages
          else (case current_stage of
                  None \<Rightarrow> stages
                | Some st \<Rightarrow> AList.update name (st\<lparr>objectives := objectives'\<rparr>) stages))"

definition classify_line :: "string \<Rightarrow> StageInfo \<Rightarrow> string list \<Rightarrow> StageInfo \<times> string list" where
  \<comment> \<open>the \<open>elif current_stage_name:\<close> branch, for a stripped, non-empty line; the bullet
      U+2022 that the source also accepts is outside the characters modelled\<close>
  "classify_line line st objectives' =
     (if str_in ''duration'' (lower line) \<or> str_in ''time'' (lower line) then
        (case after_colon line of
           Some rest \<Rightarrow> (st\<lparr>duration := strip rest\<rparr>, objectives')
         | None \<Rightarrow> (st, objectives'))
      else if str_in ''prerequisite'' (lower line) then
        (case after_colon line of
           Some rest \<Rightarrow> (st\<lparr>prerequisites := map strip (split CHR '','' rest)\<rparr>, objectives')
         | None \<Rightarrow> (st, objectives'))
      else if str_in ''objective'' (lower line) \<or> str_in ''goal'' (lower line) then
        (st, objectives')
      else if startswith line ''-'' \<or> startswith line ''*''
              \<or> (case line of [] \<Rightarrow> False | c # _ \<Rightarrow> isdigit c) then
        (st, objectives' @ [dropWhile (\<lambda>c. c \<in> set ''-* 0123456789.'') line])
      else if str_in ''description'' (lower line) then
        (case after_colon line of
           Some rest \<Rightarrow> (st\<lparr>description := strip rest\<rparr>, objectives')
         | None \<Rightarrow> (st, objectives'))
      else
        (if description st = [] then (st\<lparr>description := line\<rparr>, objectives')
         else (st, objectives')))"

definition parse_stage_line :: "stage_acc \<Rightarrow> string \<Rightarrow> stage_acc" where
  \<comment> \<open>one iteration of the loop of \<open>parse_stages_from_text\<close>\<close>
  "parse_stage_line acc raw =
     (case acc of (stages, current_stage_name, current_stage, objectives') \<Rightarrow>
        let line = strip raw
        in if line = [] then acc
           else
             (case stage_match line of
                Some (stage_number, g3) \<Rightarrow>
                  (save_stage current_stage_name current_stage objectives' stages,
                   Some (strip g3),
                   Some \<lparr> description = [], duration = ''4 weeks'',
                          prerequisites = [], objectives = [] \<rparr>,
                   [])
              | None \<Rightarrow>
                  if truthy current_stage_name then
                    (case current_stage of
                       Some st \<Rightarrow>
                         (case classify_line line st objectives' of
                            (st', objs) \<Rightarrow> (stages, current_stage_name, Some st', objs))
                     | None \<Rightarrow> acc)
                  else acc))"

definition parsed_stages :: "string \<Rightarrow> (string, StageInfo) dict" where
  \<comment> \<open>the dictionary \<open>stages\<close> after the loop and the flush of the last stage\<close>
  "parsed_stages text =
     (case foldl parse_stage_line ([], None, None, []) (split CHR 0x0A text) of
        (stages, current_stage_name, current_stage, objectives') \<Rightarrow>
          save_stage current_stage_name current_stage objectives' stages)"

definition parse_stages_from_text :: "string \<Rightarrow> string \<Rightarrow> string \<Rightarrow> (string, StageInfo) dict" where
  "parse_stages_from_text text topic' level =
     (let stages = parsed_stages text
      in if stages = [] then create_default_stages topic' level else stages)"

definition estructurador_plan :: "reply \<Rightarrow> GraphState \<Rightarrow> GraphState" where
  \<comment> \<open>the reply is the outcome of \<open>llm.invoke(prompt)\<close>\<close>
  "estructurador_plan response state =
     (let topic' = topic state; level = user_level state
      in (case response of
            Reply plan_text \<Rightarrow>
              state\<lparr> study_plan_structure := parse_stages_from_text plan_text topic' level,
                     plan_refinement_iterations := plan_refinement_iterations state + 1 \<rparr>
          | Failed \<Rightarrow>
              state\<lparr> study_plan_structure := create_default_stages topic' level,
                     plan_refinement_iterations := 1 \<rparr>))"

definition needs_books :: "(string, BookInfo list) dict \<Rightarrow> string \<Rightarrow> bool" where
  \<comment> \<open>\<open>stage_name not in books_by_stage or len(books_by_stage[stage_name]) < 2\<close>\<close>
  "needs_books books stage_name =
     (case map_of books stage_name of None \<Rightarrow> True | Some bs \<Rightarrow> length bs < 2)"

definition selector_etapa :: "GraphState \<Rightarrow> GraphState" where
  "selector_etapa state =
     (let stages = study_plan_structure state;
          books = books_by_stage state;
          previous_stage = stage_being_processed state;
          next_stage = find (needs_books books) (keys stages)
      in if truthy next_stage then
           (if next_stage \<noteq> previous_stage
            then state\<lparr> book_search_iterations := 0, stage_being_processed := next_stage \<rparr>
            else state\<lparr> stage_being_processed := next_stage \<rparr>)
         else state\<lparr> stage_being_processed := None, all_stages_covered := True \<rparr>)"

fun clear_stages :: "string list \<Rightarrow> (string, BookInfo list) dict \<Rightarrow> (string, BookInfo list) dict" where
  \<comment> \<open>the last loop of \<open>replanificador\<close>; \<open>books\<close> and \<open>state["books_by_stage"]\<close> are the
      same dictionary, so a deletion is seen by the later iterations\<close>
  "clear_stages [] books = books"
| "clear_stages (stage # rest) books =
     (if length (get_or books stage []) < 2
      then clear_stages rest (AList.delete stage books)
      else clear_stages rest books)"

definition replanificador :: "reply \<Rightarrow> GraphState \<Rightarrow> GraphState" where
  "replanificador response state =
     (case response of
        Reply recommendations \<Rightarrow>
          let n = plan_refinement_iterations state + 1
          in state\<lparr> plan_refinement_iterations := n,
                    validation_feedback := validation_feedback state
                       @ [''Replanificaci'' @ [CHR 0xF3] @ ''n #'' @ show_int n @ '': ''
                          @ take 100 recommendations],
                    all_stages_covered := False,
                    books_by_stage :=
                       clear_stages (keys (study_plan_structure state)) (books_by_stage state) \<rparr>
      | Failed \<Rightarrow>
          state\<lparr> plan_refinement_iterations := plan_refinement_iterations state + 1 \<rparr>)"

section \<open>Analysis nodes (nodes/analysis\_nodes.py)\<close>

definition analizador_tema :: "reply \<Rightarrow> GraphState \<Rightarrow> GraphState" where
  "analizador_tema response state =
     (case response of
        Reply analysis_text \<Rightarrow>
          let gaps =
                (if str_in ''gap'' (lower analysis_text)
                 then map strip
                        (filter (\<lambda>line. str_in ''gap'' (lower line) \<or> str_in ''lack'' (lower line)
                                         \<or> str_in ''missing'' (lower line))
                           (split CHR 0x0A analysis_text))
                 else []);
              gaps = (if gaps = [] then [''Complete coverage of '' @ topic state] else gaps)
          in state\<lparr> knowledge_gaps := gaps,
                    validation_feedback :=
                      [''An'' @ [CHR 0xE1] @ ''lisis inicial: '' @ take 200 analysis_text @ ''...''] \<rparr>
      | Failed \<Rightarrow>
          state\<lparr> knowledge_gaps := [''Foundational '' @ topic state,
                                     ''Intermediate '' @ topic state,
                                     ''Advanced '' @ topic state] \<rparr>)"

definition evaluador_nivel :: "GraphState \<Rightarrow> GraphState" where
  "evaluador_nivel state =
     (let level = user_level state;
          level = (if level = [] \<or> level \<notin> set [''beginner'', ''intermediate'', ''advanced'']
                   then ''beginner'' else level);
          state = state\<lparr> user_level := level \<rparr>
      in if level = ''beginner'' then state
         else if level = ''intermediate'' then
           state\<lparr> knowledge_gaps :=
                    filter (\<lambda>g. \<not> str_in ''foundational'' (lower g)) (knowledge_gaps state) \<rparr>
         else
           state\<lparr> knowledge_gaps :=
                    filter (\<lambda>g. list_ex (\<lambda>word. str_in word (lower g))
                                  [''advanced'', ''complex'', ''expert''])
                      (knowledge_gaps state) \<rparr>)"

section \<open>Validation and output nodes (nodes/validation\_nodes.py)\<close>

definition score_at :: "string \<Rightarrow> string option" where
  \<comment> \<open>\<open>(\\d+)/10|score[:\\s]+(\\d+)\<close>, ignoring case, matches at the head of the string:
      the group that matched\<close>
  "score_at s =
     (if takeWhile isdecimal s \<noteq> [] \<and> startswith (dropWhile isdecimal s) ''/10''
      then Some (takeWhile isdecimal s)
      else if lower (take 5 s) = ''score''
              \<and> takeWhile (\<lambda>c. c = CHR '':'' \<or> isspace c) (drop 5 s) \<noteq> []
              \<and> takeWhile isdecimal (dropWhile (\<lambda>c. c = CHR '':'' \<or> isspace c) (drop 5 s)) \<noteq> []
      then Some (takeWhile isdecimal (dropWhile (\<lambda>c. c = CHR '':'' \<or> isspace c) (drop 5 s)))
      else None)"

fun score_search :: "string \<Rightarrow> string option" where
  \<comment> \<open>\<open>re.search\<close> with that pattern: the leftmost match\<close>
  "score_search [] = None"
| "score_search (c # s) =
     (case score_at (c # s) of Some g \<Rightarrow> Some g | None \<Rightarrow> score_search s)"

definition validador_global :: "reply \<Rightarrow> GraphState \<Rightarrow> GraphState" where
  "validador_global response state =
     (let n = validation_iterations state + 1
      in (case response of
            Reply validation_text \<Rightarrow>
              let quality_score =
                    (case score_search validation_text of Some g \<Rightarrow> py_int g | None \<Rightarrow> 7);
                  critical_issues =
                    (if str_in ''critical'' (lower validation_text)
                        \<or> str_in ''major issue'' (lower validation_text)
                     then [''Critical issues detected in plan structure''] else [])
                    @ (if quality_score < 6
                       then [''Low quality score: '' @ show_int quality_score @ ''/10''] else [])
              in state\<lparr> validation_iterations := n,
                        validation_feedback := validation_feedback state
                          @ [''Validation '' @ show_int n @ '': Score '' @ show_int quality_score
                             @ ''/10'']
                          @ critical_issues \<rparr>
          | Failed \<Rightarrow>
              state\<lparr> validation_iterations := n,
                     validation_feedback := validation_feedback state
                       @ [''Validation '' @ show_int n @ '': Completed with warnings''] \<rparr>))"

text \<open>
  The document that \<open>formateador_salida\<close> renders, and the banner that \<open>salida_forzada\<close>
  puts before it, are parameters: a function from the state to the rendered text, and a
  string.  Writing the file leaves the state alone and is not modelled.
\<close>

definition formateador_salida :: "(GraphState \<Rightarrow> string) \<Rightarrow> GraphState \<Rightarrow> GraphState" where
  "formateador_salida render state = state\<lparr> final_output := render state \<rparr>"

definition salida_forzada :: "(GraphState \<Rightarrow> string) \<Rightarrow> string \<Rightarrow> GraphState \<Rightarrow> GraphState" where
  "salida_forzada render disclaimer state =
     (let temp_flag = (case skip_auto_save state of None \<Rightarrow> False | Some b \<Rightarrow> b);
          state = state\<lparr> skip_auto_save := Some True \<rparr>;
          state = formateador_salida render state;
          state = state\<lparr> skip_auto_save := Some temp_flag \<rparr>
      in state\<lparr> final_output := disclaimer @ final_output state \<rparr>)"

section \<open>The graph (graph.py)\<close>

definition initialize_state :: "string \<Rightarrow> string \<Rightarrow> GraphState" where
  "initialize_state topic' user_level' =
     \<lparr> topic = topic', user_level = user_level', knowledge_gaps = [],
       study_plan_structure = [], books_by_stage = [], book_candidates = [],
       book_search_iterations = 0, validation_iterations = 0,
       plan_refinement_iterations = 0, quality_threshold = QUALITY_THRESHOLD,
       stage_being_processed = None, all_stages_covered = False,
       final_output = [], validation_feedback = [], skip_auto_save = None \<rparr>"

datatype node =
  analizador_tema_node | evaluador_nivel_node | estructurador_plan_node | selector_etapa_node
| replanificador_node | investigador_libros_node | validador_calidad_node | detector_gaps_node
| validador_global_node | formateador_salida_node | salida_forzada_node | decision_cobertura_node

text \<open>
  What the world outside the state gives one run of a node: the outcome of the call to the
  language model, the outcome of the book search, and the rendering of the document.
\<close>

record outside =
  response :: reply
  books_found :: "book_dict list option"
  render :: "GraphState \<Rightarrow> string"
  disclaimer :: string

fun run_node :: "node \<Rightarrow> outside \<Rightarrow> GraphState \<Rightarrow> GraphState" where
  \<comment> \<open>the nodes that \<open>create_study_plan_graph\<close> registers; with the node
      \<open>decision_cobertura\<close>, whose function is the identity, goes the write of its
      routing function\<close>
  "run_node analizador_tema_node w state = analizador_tema (response w) state"
| "run_node evaluador_nivel_node w state = evaluador_nivel state"
| "run_node estructurador_plan_node w state = estructurador_plan (response w) state"
| "run_node selector_etapa_node w state = selector_etapa state"
| "run_node replanificador_node w state = replanificador (response w) state"
| "run_node investigador_libros_node w state = investigador_libros (books_found w) state"
| "run_node validador_calidad_node w state = validador_calidad state"
| "run_node detector_gaps_node w state = detector_gaps state"
| "run_node validador_global_node w state = validador_global (response w) state"
| "run_node formateador_salida_node w state = formateador_salida (render w) state"
| "run_node salida_forzada_node w state = salida_forzada (render w) (disclaimer w) state"
| "run_node decision_cobertura_node w state = snd (decision_cobertura_etapas state)"

fun run_nodes :: "(node \<times> outside) list \<Rightarrow> GraphState \<Rightarrow> GraphState" where
  \<comment> \<open>any sequence of node runs, each with what the outside gives it\<close>
  "run_nodes [] state = state"
| "run_nodes ((n, w) # rest) state = run_nodes rest (run_node n w state)"

section \<open>Synthetic book blocks\<close>







section \<open>Example values\<close>

definition a_book :: "real \<Rightarrow> int \<Rightarrow> BookInfo" where
  "a_book r n = \<lparr> title = ''T'', author = ''Unknown'', year = None, rating = r,
                  num_reviews = n, reason = ''R'', score = 0 \<rparr>"

definition a_stage :: StageInfo where
  "a_stage = \<lparr> description = [], duration = ''4 weeks'', prerequisites = [], objectives = [] \<rparr>"

definition dune :: book_dict where
  "dune = \<lparr> d_title = Some ''Dune'', d_author = Some ''Frank Herbert'',
            d_year = Some (Some ''1965''), d_rating = Some 4.5, d_num_reviews = Some 1200,
            d_reason = Some ''classic'' \<rparr>"

definition two_stage_state :: GraphState where
  "two_stage_state =
     (initialize_state ''Algorithms'' ''beginner'')
       \<lparr> study_plan_structure := [(''A'', a_stage), (''B'', a_stage)],
         books_by_stage := [(''A'', [a_book 4.5 100, a_book 4.2 80])],
         book_search_iterations := 2,
         stage_being_processed := Some ''A'' \<rparr>"

section \<open>Properties of the string operations\<close>

lemma startswith_iff: "startswith s p \<longleftrightarrow> (\<exists>r. s = p @ r)"
  by (induction s p rule: startswith.induct) auto

lemma str_in_iff: "str_in sub s \<longleftrightarrow> (\<exists>ps ss. s = ps @ sub @ ss)"
proof (induction s)
  case Nil
  then show ?case by auto
next
  case (Cons c s)
  show ?case
  proof
    assume "str_in sub (c # s)"
    then consider "startswith (c # s) sub" | "str_in sub s" by auto
    then show "\<exists>ps ss. c # s = ps @ sub @ ss"
    proof cases
      case 1
      then obtain r where "c # s = sub @ r" by (auto simp: startswith_iff)
      then have "c # s = [] @ sub @ r" by simp
      then show ?thesis by blast
    next
      case 2
      then obtain ps ss where "s = ps @ sub @ ss" using Cons.IH by blast
      then have "c # s = (c # ps) @ sub @ ss" by simp
      then show ?thesis by blast
    qed
  next
    assume "\<exists>ps ss. c # s = ps @ sub @ ss"
    then obtain ps ss where eq: "c # s = ps @ sub @ ss" by blast
    show "str_in sub (c # s)"
    proof (cases ps)
      case Nil
      with eq have "startswith (c # s) sub" by (auto simp: startswith_iff)
      then show ?thesis by simp
    next
      case (Cons p ps')
      with eq have "s = ps' @ sub @ ss" by simp
      then have "str_in sub s" using Cons.IH by blast
      then show ?thesis by simp
    qed
  qed
qed

section \<open>The decision functions\<close>

text \<open>
  Claim C1.  For a state with a selected stage, the book-search decision tests its rules
  in this order: at least 3 searches give accept-current; else fewer than 2 books for the
  stage give retry-general; else a knowledge gap that contains the stage name or the word
  "need" (both case-insensitively), together with fewer than 2 searches, gives
  retry-specific; else the books are sufficient.  With 3 searches and no book the result
  is accept-current.
\<close>

theorem decision_busqueda_libros_order:
  assumes "stage_being_processed s = Some st" and "st \<noteq> []"
  shows "decision_busqueda_libros s =
     (if 3 \<le> book_search_iterations s then aceptar_libros_actuales
      else if length (get_or (books_by_stage s) st []) < 2 then reintentar_busqueda
      else if (\<exists>g \<in> set (knowledge_gaps s).
                  (\<exists>ps ss. lower g = ps @ lower st @ ss) \<or> (\<exists>ps ss. lower g = ps @ ''need'' @ ss))
              \<and> book_search_iterations s < 2 then busqueda_especifica
      else libros_suficientes)
    \<and> (book_search_iterations s = 3 \<and> get_or (books_by_stage s) st [] = []
         \<longrightarrow> decision_busqueda_libros s = aceptar_libros_actuales)"
  using assms
  by (auto simp: decision_busqueda_libros_def Let_def MAX_BOOK_SEARCHES_PER_STAGE_def
      MIN_BOOKS_PER_STAGE_def filter_empty_conv str_in_iff)

theorem decision_busqueda_libros_order_witness:
  "decision_busqueda_libros
     ((initialize_state ''Algorithms'' ''beginner'')
        \<lparr> book_search_iterations := 3, stage_being_processed := Some ''Sorting'' \<rparr>)
   = aceptar_libros_actuales"
  using decision_busqueda_libros_order
     [of "(initialize_state ''Algorithms'' ''beginner'')
        \<lparr> book_search_iterations := 3, stage_being_processed := Some ''Sorting'' \<rparr>" "''Sorting''"]
  by (simp add: initialize_state_def get_or_def)

text \<open>
  Claim C3.  The validation decision forces the output as soon as the validation counter
  is at least 5, whatever the other fields hold; otherwise it replans when one of the last
  three feedback entries contains "critical", "major issue" or "low quality"
  (case-insensitively) and fewer than 2 refinements were made, or when some stage of the
  plan has fewer than 2 books and fewer than 2 refinements were made; in every other case
  it formats the output.
\<close>

theorem decision_validacion_order:
  "decision_validacion s =
     (if 5 \<le> validation_iterations s then forzar_salida
      else if ((\<exists>fb \<in> set (drop (length (validation_feedback s) - 3) (validation_feedback s)).
                  (\<exists>ps ss. lower fb = ps @ ''critical'' @ ss)
                  \<or> (\<exists>ps ss. lower fb = ps @ ''major issue'' @ ss)
                  \<or> (\<exists>ps ss. lower fb = ps @ ''low quality'' @ ss))
               \<and> plan_refinement_iterations s < 2)
            \<or> ((\<exists>st \<in> set (keys (study_plan_structure s)).
                   length (get_or (books_by_stage s) st []) < 2)
               \<and> plan_refinement_iterations s < 2)
           then replantear
      else formatear)"
  by (auto simp: decision_validacion_def Let_def MAX_VALIDATION_CYCLES_def uncovered_def
      MAX_PLAN_REFINEMENTS_def MIN_BOOKS_PER_STAGE_def filter_empty_conv str_in_iff last3_def
      list_ex_iff)

theorem decision_validacion_order_witness:
  "decision_validacion
     ((initialize_state ''Algorithms'' ''beginner'')
        \<lparr> validation_iterations := 5, validation_feedback := [''all fine''] \<rparr>) = forzar_salida"
  using decision_validacion_order
     [of "(initialize_state ''Algorithms'' ''beginner'')
        \<lparr> validation_iterations := 5, validation_feedback := [''all fine''] \<rparr>"]
  by (simp add: initialize_state_def)

text \<open>
  Claim C4.  The coverage decision returns next-stage and sets all-stages-covered to false
  exactly when some stage of the plan structure has fewer than 2 books; otherwise it
  returns validate-globally and sets the flag to true.  The witness is the plan \<open>{A, B}\<close>
  with two books at \<open>A\<close> and one at \<open>B\<close>.
\<close>

theorem decision_cobertura_etapas_spec:
  "decision_cobertura_etapas s =
     (if \<exists>st \<in> set (keys (study_plan_structure s)). length (get_or (books_by_stage s) st []) < 2
      then (siguiente_etapa, s\<lparr>all_stages_covered := False\<rparr>)
      else (validacion_global, s\<lparr>all_stages_covered := True\<rparr>))"
  by (auto simp: decision_cobertura_etapas_def Let_def uncovered_def MIN_BOOKS_PER_STAGE_def
      filter_empty_conv)

theorem decision_cobertura_etapas_spec_witness:
  "decision_cobertura_etapas
     ((initialize_state ''Algorithms'' ''beginner'')
        \<lparr> study_plan_structure := [(''A'', a_stage), (''B'', a_stage)],
          books_by_stage := [(''A'', [a_book 4.5 100, a_book 4.2 80]), (''B'', [a_book 4.1 60])],
          all_stages_covered := True \<rparr>)
   = (siguiente_etapa,
      (initialize_state ''Algorithms'' ''beginner'')
        \<lparr> study_plan_structure := [(''A'', a_stage), (''B'', a_stage)],
          books_by_stage := [(''A'', [a_book 4.5 100, a_book 4.2 80]), (''B'', [a_book 4.1 60])],
          all_stages_covered := False \<rparr>)"
  using decision_cobertura_etapas_spec
     [of "(initialize_state ''Algorithms'' ''beginner'')
        \<lparr> study_plan_structure := [(''A'', a_stage), (''B'', a_stage)],
          books_by_stage := [(''A'', [a_book 4.5 100, a_book 4.2 80]), (''B'', [a_book 4.1 60])],
          all_stages_covered := True \<rparr>"]
  by (simp add: initialize_state_def get_or_def keys_def)

section \<open>The book search nodes\<close>

lemma get_or_update: "get_or (AList.update k v d) k dflt = v"
  by (simp add: get_or_def update_conv')

lemma convert_books_score:
  "b \<in> set (convert_books found) \<Longrightarrow>
     score b = rating b * ln (real_of_int (max (num_reviews b) 1 + 1))"
  by (induction found) (auto simp: book_info_def Let_def split: option.splits if_splits)

lemma score_formula_nonneg:
  assumes "0 \<le> (r::real)"
  shows "0 \<le> r * ln (real_of_int (max n 1 + 1))"
proof -
  have "1 \<le> real_of_int (max n 1 + 1)" by simp
  then have "0 \<le> ln (real_of_int (max n 1 + 1))" by simp
  with assms show ?thesis by simp
qed

text \<open>
  Claim C5.  Every book record that Book Research builds from a parsed candidate stores
  the score \<open>rating * ln (max num_reviews 1 + 1)\<close>, and the score is not negative when
  the rating is not.  Floating-point numbers are read as the reals they denote.
\<close>

theorem investigador_libros_score:
  assumes "stage_being_processed s = Some st" and "st \<noteq> []"
  shows "\<forall>b \<in> set (get_or (book_candidates (investigador_libros found s)) st []).
           score b = rating b * ln (real_of_int (max (num_reviews b) 1 + 1))
           \<and> (0 \<le> rating b \<longrightarrow> 0 \<le> score b)"
proof
  fix b
  assume b: "b \<in> set (get_or (book_candidates (investigador_libros found s)) st [])"
  have "score b = rating b * ln (real_of_int (max (num_reviews b) 1 + 1))"
  proof (cases found)
    case None
    with assms b show ?thesis
      by (simp add: investigador_libros_def get_or_update)
  next
    case (Some bs)
    with assms b have "b \<in> set (convert_books bs)"
      by (simp add: investigador_libros_def get_or_update)
    then show ?thesis by (rule convert_books_score)
  qed
  then show "score b = rating b * ln (real_of_int (max (num_reviews b) 1 + 1))
           \<and> (0 \<le> rating b \<longrightarrow> 0 \<le> score b)"
    using score_formula_nonneg by simp
qed

theorem investigador_libros_score_witness:
  "get_or (book_candidates (investigador_libros (Some [dune])
       ((initialize_state ''Algorithms'' ''beginner'')\<lparr> stage_being_processed := Some ''A'' \<rparr>)))
     ''A'' []
   = [\<lparr> title = ''Dune'', author = ''Frank Herbert'', year = Some ''1965'', rating = 4.5,
        num_reviews = 1200, reason = ''classic'', score = 4.5 * ln 1201 \<rparr>]
   \<and> (0::real) \<le> 4.5 * ln 1201"
  using investigador_libros_score
    [of "(initialize_state ''Algorithms'' ''beginner'')\<lparr> stage_being_processed := Some ''A'' \<rparr>"
        "''A''" "Some [dune]"]
  by (simp add: initialize_state_def investigador_libros_def get_or_def dune_def
      book_info_def)



lemma length_new_gaps:
  "length (new_gaps st books) =
     (if length books < 2 then 1 else 0)
     + (if \<exists>b \<in> set books. rating b < 3.8 then 1 else 0)
     + (if length books < 2 * length (filter (\<lambda>b. num_reviews b < 50) books) then 1 else 0)"
proof -
  have half: "length books div 2 < k \<longleftrightarrow> length books < 2 * k" for k :: nat
    by arith
  show ?thesis
    by (simp add: new_gaps_def Let_def MIN_BOOKS_PER_STAGE_def filter_empty_conv half)
qed

lemma new_gaps_mention_stage:
  assumes "g \<in> set (new_gaps st books)"
  shows "\<exists>ps ss. g = ps @ st @ ss"
proof -
  from assms consider
      "g = (''La etapa '' @ quote) @ st @ (quote @ '' necesita m'' @ [CHR 0xE1]
             @ ''s libros (actualmente '' @ show_nat (length books) @ '')'')"
    | "g = (''Algunos libros en '' @ quote) @ st @ (quote @ '' tienen calificaciones bajas'')"
    | "g = (''Muchos libros en '' @ quote) @ st @ (quote @ '' carecen de suficientes rese''
             @ [CHR 0xF1] @ ''as'')"
    by (auto simp: new_gaps_def Let_def split: if_splits)
  then show ?thesis by cases blast+
qed

text \<open>
  Claim C7.  With a stage selected, Gap Detection appends to the knowledge gaps one string
  for each condition that holds of the stage's books: fewer than 2 books, some book rated
  below 3.8, more than half of the books with fewer than 50 reviews.  Each string names the
  stage, the earlier gaps stay as they are, and the state is unchanged when no condition
  holds.
\<close>

theorem detector_gaps_appends:
  assumes "stage_being_processed s = Some st" and "st \<noteq> []"
  shows "detector_gaps s =
           s\<lparr>knowledge_gaps := knowledge_gaps s @ new_gaps st (get_or (books_by_stage s) st [])\<rparr>
       \<and> length (new_gaps st (get_or (books_by_stage s) st [])) =
           (if length (get_or (books_by_stage s) st []) < 2 then 1 else 0)
           + (if \<exists>b \<in> set (get_or (books_by_stage s) st []). rating b < 3.8 then 1 else 0)
           + (if length (get_or (books_by_stage s) st [])
                   < 2 * length (filter (\<lambda>b. num_reviews b < 50) (get_or (books_by_stage s) st []))
              then 1 else 0)
       \<and> (\<forall>g \<in> set (new_gaps st (get_or (books_by_stage s) st [])). \<exists>ps ss. g = ps @ st @ ss)
       \<and> (2 \<le> length (get_or (books_by_stage s) st [])
            \<and> (\<forall>b \<in> set (get_or (books_by_stage s) st []). 3.8 \<le> rating b)
            \<and> 2 * length (filter (\<lambda>b. num_reviews b < 50) (get_or (books_by_stage s) st []))
                 \<le> length (get_or (books_by_stage s) st [])
          \<longrightarrow> detector_gaps s = s)"
proof -
  let ?books = "get_or (books_by_stage s) st []"
  have eq: "detector_gaps s = s\<lparr>knowledge_gaps := knowledge_gaps s @ new_gaps st ?books\<rparr>"
    using assms by (simp add: detector_gaps_def Let_def)
  have len: "length (new_gaps st ?books) =
           (if length ?books < 2 then 1 else 0)
           + (if \<exists>b \<in> set ?books. rating b < 3.8 then 1 else 0)
           + (if length ?books < 2 * length (filter (\<lambda>b. num_reviews b < 50) ?books)
              then 1 else 0)"
    by (rule length_new_gaps)
  have mention: "\<forall>g \<in> set (new_gaps st ?books). \<exists>ps ss. g = ps @ st @ ss"
    using new_gaps_mention_stage by blast
  have none: "detector_gaps s = s"
    if "2 \<le> length ?books" "\<forall>b \<in> set ?books. 3.8 \<le> rating b"
       "2 * length (filter (\<lambda>b. num_reviews b < 50) ?books) \<le> length ?books"
  proof -
    from that have "length (new_gaps st ?books) = 0"
      unfolding len by (auto simp: not_less [symmetric])
    then have "new_gaps st ?books = []" by simp
    with eq show ?thesis by simp
  qed
  from eq len mention none show ?thesis by blast
qed

theorem detector_gaps_appends_witness:
  "knowledge_gaps (detector_gaps
     ((initialize_state ''Algorithms'' ''beginner'')
        \<lparr> knowledge_gaps := [''old gap''],
          books_by_stage := [(''A'', [a_book 4.5 100, a_book 3.5 80])],
          stage_being_processed := Some ''A'' \<rparr>))
   = [''old gap'', ''Algunos libros en '' @ quote @ ''A'' @ quote @ '' tienen calificaciones bajas'']
  \<and> detector_gaps
     ((initialize_state ''Algorithms'' ''beginner'')
        \<lparr> knowledge_gaps := [''old gap''],
          books_by_stage := [(''A'', [a_book 4.5 100, a_book 4.2 80])],
          stage_being_processed := Some ''A'' \<rparr>)
   = (initialize_state ''Algorithms'' ''beginner'')
        \<lparr> knowledge_gaps := [''old gap''],
          books_by_stage := [(''A'', [a_book 4.5 100, a_book 4.2 80])],
          stage_being_processed := Some ''A'' \<rparr>"
  using detector_gaps_appends
     [of "(initialize_state ''Algorithms'' ''beginner'')
        \<lparr> knowledge_gaps := [''old gap''],
          books_by_stage := [(''A'', [a_book 4.5 100, a_book 3.5 80])],
          stage_being_processed := Some ''A'' \<rparr>" "''A''"]
    detector_gaps_appends
     [of "(initialize_state ''Algorithms'' ''beginner'')
        \<lparr> knowledge_gaps := [''old gap''],
          books_by_stage := [(''A'', [a_book 4.5 100, a_book 4.2 80])],
          stage_being_processed := Some ''A'' \<rparr>" "''A''"]
  by (simp add: initialize_state_def get_or_def a_book_def new_gaps_def MIN_BOOKS_PER_STAGE_def)

section \<open>Counters and the quality threshold\<close>

lemmas node_defs =
  analizador_tema_def evaluador_nivel_def estructurador_plan_def selector_etapa_def
  replanificador_def investigador_libros_def validador_calidad_def detector_gaps_def
  validador_global_def formateador_salida_def salida_forzada_def decision_cobertura_etapas_def

lemma run_node_quality_threshold:
  "quality_threshold (run_node n w s) = quality_threshold s"
  by (cases n) (simp_all add: node_defs Let_def split: reply.splits option.splits)

lemma run_nodes_quality_threshold:
  "quality_threshold (run_nodes steps s) = quality_threshold s"
  by (induction steps s rule: run_nodes.induct) (simp_all add: run_node_quality_threshold)

lemma run_node_validation_iterations:
  "validation_iterations s \<le> validation_iterations (run_node n w s)"
  by (cases n) (simp_all add: node_defs Let_def split: reply.splits option.splits)

lemma run_node_book_search_iterations:
  "n \<noteq> selector_etapa_node \<Longrightarrow>
     book_search_iterations s \<le> book_search_iterations (run_node n w s)"
  by (cases n) (simp_all add: node_defs Let_def split: reply.splits option.splits)

lemma run_node_plan_refinement_iterations:
  "plan_refinement_iterations s \<le> plan_refinement_iterations (run_node n w s)
   \<or> (n = estructurador_plan_node \<and> response w = Failed
       \<and> plan_refinement_iterations (run_node n w s) = 1)"
  by (cases n) (simp_all add: node_defs Let_def split: reply.splits option.splits)

text \<open>
  Claim C2.  Stage Selection sets the book-search counter to zero exactly when it selects
  a stage that differs from the stage selected before, and leaves it alone otherwise; it
  never touches the other two counters.  No other node brings a counter back to zero: each
  leaves every counter where it was or raises it, except that the failure branch of
  \<open>estructurador_plan\<close> stores the constant 1.
\<close>

theorem selector_etapa_resets_on_change:
  "book_search_iterations (selector_etapa s) =
     (if stage_being_processed (selector_etapa s) \<noteq> None
         \<and> stage_being_processed (selector_etapa s) \<noteq> stage_being_processed s
      then 0 else book_search_iterations s)
   \<and> validation_iterations (selector_etapa s) = validation_iterations s
   \<and> plan_refinement_iterations (selector_etapa s) = plan_refinement_iterations s
   \<and> (n \<noteq> selector_etapa_node \<longrightarrow>
         book_search_iterations s \<le> book_search_iterations (run_node n w s)
       \<and> validation_iterations s \<le> validation_iterations (run_node n w s)
       \<and> (plan_refinement_iterations s \<le> plan_refinement_iterations (run_node n w s)
          \<or> (n = estructurador_plan_node \<and> response w = Failed
              \<and> plan_refinement_iterations (run_node n w s) = 1)))"
proof -
  have "book_search_iterations (selector_etapa s) =
     (if stage_being_processed (selector_etapa s) \<noteq> None
         \<and> stage_being_processed (selector_etapa s) \<noteq> stage_being_processed s
      then 0 else book_search_iterations s)"
    by (auto simp: selector_etapa_def Let_def truthy_def split: option.splits)
  moreover have "validation_iterations (selector_etapa s) = validation_iterations s"
    and "plan_refinement_iterations (selector_etapa s) = plan_refinement_iterations s"
    by (simp_all add: selector_etapa_def Let_def)
  ultimately show ?thesis
    using run_node_book_search_iterations [of n s w] run_node_validation_iterations [of s n w]
      run_node_plan_refinement_iterations [of s n w]
    by blast
qed

theorem selector_etapa_resets_on_change_witness:
  "stage_being_processed (selector_etapa two_stage_state) = Some ''B''
   \<and> book_search_iterations (selector_etapa two_stage_state) = 0
   \<and> stage_being_processed (selector_etapa (two_stage_state\<lparr>books_by_stage := []\<rparr>)) = Some ''A''
   \<and> book_search_iterations (selector_etapa (two_stage_state\<lparr>books_by_stage := []\<rparr>)) = 2
   \<and> book_search_iterations
        (run_node investigador_libros_node
           \<lparr> response = Failed, books_found = None, render = (\<lambda>_. []), disclaimer = [] \<rparr>
           two_stage_state) = 3"
  using selector_etapa_resets_on_change [of two_stage_state investigador_libros_node
           "\<lparr> response = Failed, books_found = None, render = (\<lambda>_. []), disclaimer = [] \<rparr>"]
    selector_etapa_resets_on_change [of "two_stage_state\<lparr>books_by_stage := []\<rparr>"]
  by (simp add: two_stage_state_def initialize_state_def selector_etapa_def keys_def
      needs_books_def truthy_def a_book_def investigador_libros_def)

text \<open>
  Claim C10.  Quality Validation leaves the stored quality threshold alone: the threshold
  less 0.3 is a local value of the filter.  No node writes the field, so it keeps the value
  4.0 that \<open>initialize_state\<close> gives it through any sequence of node runs.
\<close>

theorem quality_threshold_never_written:
  "quality_threshold (validador_calidad s) = quality_threshold s
   \<and> quality_threshold (run_node n w s) = quality_threshold s
   \<and> quality_threshold (run_nodes steps (initialize_state topic' level)) = 4.0"
proof -
  have "quality_threshold (validador_calidad s) = quality_threshold s"
    using run_node_quality_threshold [of validador_calidad_node w s] by simp
  moreover have "quality_threshold (run_nodes steps (initialize_state topic' level)) = 4.0"
    by (simp add: run_nodes_quality_threshold initialize_state_def QUALITY_THRESHOLD_def)
  ultimately show ?thesis by (simp add: run_node_quality_threshold)
qed

theorem quality_threshold_never_written_witness:
  "quality_threshold (validador_calidad two_stage_state) = 4.0
   \<and> quality_threshold
        (run_node validador_calidad_node
           \<lparr> response = Failed, books_found = None, render = (\<lambda>_. []), disclaimer = [] \<rparr>
           two_stage_state) = 4.0"
  using quality_threshold_never_written [of two_stage_state validador_calidad_node
           "\<lparr> response = Failed, books_found = None, render = (\<lambda>_. []), disclaimer = [] \<rparr>"]
  by (simp add: two_stage_state_def initialize_state_def QUALITY_THRESHOLD_def)

section \<open>Plan Structuring\<close>

lemma keys_create_default_stages:
  "keys (create_default_stages t level) =
     (if level = ''beginner''
      then [''Fundamentals of '' @ t, ''Intermediate '' @ t, ''Advanced '' @ t]
      else [''Core '' @ t, ''Advanced '' @ t])"
  by (simp add: create_default_stages_def keys_def)

lemma default_plan_size:
  "length (create_default_stages t level) = (if level = ''beginner'' then 3 else 2)
   \<and> distinct (keys (create_default_stages t level))"
  using keys_create_default_stages [of t level]
  by (auto simp: keys_def dest: arg_cong [where f = length])

lemma estructurador_plan_fallback:
  assumes "response' = Failed \<or> (\<exists>text. response' = Reply text \<and> parsed_stages text = [])"
  shows "study_plan_structure (estructurador_plan response' s)
           = create_default_stages (topic s) (user_level s)"
  using assms
  by (auto simp: estructurador_plan_def parse_stages_from_text_def Let_def)

lemma estructurador_plan_counter:
  "plan_refinement_iterations (estructurador_plan response' s) =
     (case response' of Reply text \<Rightarrow> plan_refinement_iterations s + 1 | Failed \<Rightarrow> 1)"
  by (simp add: estructurador_plan_def Let_def split: reply.splits)

lemma estructurador_plan_first_run:
  "plan_refinement_iterations
     (estructurador_plan response2
        (evaluador_nivel (analizador_tema response1 (initialize_state topic' level)))) = 1"
proof -
  let ?s = "evaluador_nivel (analizador_tema response1 (initialize_state topic' level))"
  have "plan_refinement_iterations (analizador_tema response1 (initialize_state topic' level)) = 0"
    by (simp add: analizador_tema_def initialize_state_def Let_def split: reply.splits)
  moreover have "plan_refinement_iterations (evaluador_nivel s) = plan_refinement_iterations s"
    for s by (simp add: evaluador_nivel_def Let_def)
  ultimately have "plan_refinement_iterations ?s = 0" by simp
  then show ?thesis
    by (simp add: estructurador_plan_counter split: reply.splits)
qed

text \<open>
  Claim C8.  Plan Structuring is documented to increment the plan-refinement counter.  The
  branch taken when the language model fails stores 1 instead: from a counter of 2 the
  result is 1, where the branch for an answer gives 3.  The default plan itself is as
  claimed (\<open>default_plan_size\<close>, \<open>estructurador_plan_fallback\<close>), and on the first run
  of a session, with the counter at 0, both branches give 1
  (\<open>estructurador_plan_first_run\<close>).
\<close>

theorem estructurador_plan_failure_stores_one:
  "plan_refinement_iterations
     (estructurador_plan Failed
        ((initialize_state ''Algorithms'' ''beginner'')\<lparr>plan_refinement_iterations := 2\<rparr>)) = 1
   \<and> plan_refinement_iterations
     (estructurador_plan (Reply [])
        ((initialize_state ''Algorithms'' ''beginner'')\<lparr>plan_refinement_iterations := 2\<rparr>)) = 3"
  by (simp add: estructurador_plan_def initialize_state_def)

section \<open>The book parser on a synthetic block\<close>
























lemma nonempty_title [simp]: "d_title b \<noteq> None \<Longrightarrow> nonempty b"
  by (simp add: nonempty_def)

lemma not_nonempty_empty_dict [simp]: "\<not> nonempty empty_dict"
  by (simp add: nonempty_def empty_dict_def)














end
